theory Spec2Isabelle
  imports Main "HOL-Library.Sublist"
begin

section \<open>Strings\<close>

text \<open>
  A Python \<open>str\<close> is a sequence of Unicode code points; it is modelled as a list of
  code points, so that the Cyrillic words of the bot are single characters as they are in
  Python. \<open>py\<close> writes an ASCII literal. Python's \<open>sub in s\<close> on strings is
  contiguous containment, the library's \<open>sublist sub s\<close>.
\<close>

type_synonym pystr = "nat list"

definition py :: "string \<Rightarrow> pystr" where
  "py s = map of_char s"

text \<open>\<open>sep.join(parts)\<close>.\<close>

fun join :: "pystr \<Rightarrow> pystr list \<Rightarrow> pystr" where
  "join sep [] = []"
| "join sep [x] = x"
| "join sep (x # y # ys) = x @ sep @ join sep (y # ys)"

text \<open>
  \<open>s.replace(old, new)\<close>: the occurrences of \<open>old\<close> are replaced from left to
  right, without overlap. With an empty \<open>old\<close> Python puts \<open>new\<close> before every
  character and at the end.
\<close>

function replace :: "pystr \<Rightarrow> pystr \<Rightarrow> pystr \<Rightarrow> pystr" where
  "replace old new s =
     (if old = [] then new @ concat (map (\<lambda>c. c # new) s)
      else if s = [] then []
      else if prefix old s then new @ replace old new (drop (length old) s)
      else hd s # replace old new (tl s))"
  by pat_completeness auto
termination
  by (relation "measure (\<lambda>(old, new, s). length s)") auto

declare replace.simps [simp del]

section \<open>The storage engine\<close>

text \<open>
  The three tables the bot uses. A chat id is an integer; the bot stores \<open>str(chat_id)\<close>,
  which is injective, so the column is modelled by the integer itself.

  The connection is taken as established and the statements as accepted: the storage
  engine is an external collaborator of the bot.
\<close>

record chat_row =
  cm_chat_id :: int
  cm_role :: pystr
  cm_content :: pystr
  cm_created_at :: nat

record knowledge_row =
  pk_file_id :: pystr
  pk_content :: pystr

record task_row =
  t_file_id :: pystr
  t_question :: pystr

record database =
  chat_memory :: "chat_row list"
  pdf_knowledge :: "knowledge_row list"
  gd24_tasks :: "task_row list"
  clock :: nat

type_synonym message = "pystr \<times> pystr"

text \<open>Everything a handler does outside of its own memory, in the order it happens.\<close>

datatype event =
    Select_chat_memory int nat
  | Insert_chat_memory int pystr pystr
  | Select_gd24_tasks pystr pystr
  | Insert_pdf_knowledge pystr pystr
  | Post_gemini "message list"
  | Get_latex pystr
  | Reply_text pystr
  | Reply_html pystr
  | Reply_photo "nat list"

text \<open>\<open>context.user_data\<close>: the two keys the handlers use; \<open>None\<close> is an absent key.\<close>

record user_data =
  last_pdf_id :: "pystr option"
  systemMessage :: "bool option"

record world =
  db :: database
  user_data :: user_data
  trace :: "event list"

definition emit :: "event \<Rightarrow> world \<Rightarrow> world" where
  "emit e w = w\<lparr>trace := trace w @ [e]\<rparr>"

subsection \<open>Database helpers\<close>

text \<open>
  Modelled from the spec: the schema of \<open>chat_memory\<close> is missing from the source,
  which orders by \<open>created_at\<close> and never writes it. It is the server-assigned
  timestamp of the spec: an insertion stamps the row with the database clock, and the
  clock advances with every insertion.
\<close>

definition insert_chat_memory :: "int \<Rightarrow> pystr \<Rightarrow> pystr \<Rightarrow> database \<Rightarrow> database" where
  "insert_chat_memory chat_id role content d =
     d\<lparr>chat_memory := chat_memory d @
          [\<lparr>cm_chat_id = chat_id, cm_role = role, cm_content = content,
            cm_created_at = clock d\<rparr>],
       clock := Suc (clock d)\<rparr>"

definition save_chat_memory :: "int \<Rightarrow> pystr \<Rightarrow> pystr \<Rightarrow> world \<Rightarrow> world" where
  "save_chat_memory chat_id role content w =
     emit (Insert_chat_memory chat_id role content)
       (w\<lparr>db := insert_chat_memory chat_id role content (db w)\<rparr>)"

text \<open>
  \<open>SELECT role, content FROM chat_memory WHERE chat_id = %s ORDER BY created_at DESC
  LIMIT %s\<close>. The limit is a natural number: the bot only passes its default 20, and the
  engine rejects a negative one.
\<close>

definition select_chat_memory :: "database \<Rightarrow> int \<Rightarrow> nat \<Rightarrow> message list" where
  "select_chat_memory d chat_id limit =
     map (\<lambda>r. (cm_role r, cm_content r))
       (take limit (rev (sort_key cm_created_at
          (filter (\<lambda>r. cm_chat_id r = chat_id) (chat_memory d)))))"

definition load_chat_memory :: "int \<Rightarrow> nat \<Rightarrow> world \<Rightarrow> message list \<times> world" where
  "load_chat_memory chat_id limit w =
     (let rows = select_chat_memory (db w) chat_id limit
      in (rev rows, emit (Select_chat_memory chat_id limit) w))"

text \<open>The turns of a conversation, oldest first.\<close>

definition history :: "database \<Rightarrow> int \<Rightarrow> message list" where
  "history d chat_id =
     map (\<lambda>r. (cm_role r, cm_content r))
       (sort_key cm_created_at (filter (\<lambda>r. cm_chat_id r = chat_id) (chat_memory d)))"

text \<open>Appending the turns \<open>t1, ..., tn\<close> to a conversation, in this order.\<close>

fun save_all :: "int \<Rightarrow> message list \<Rightarrow> world \<Rightarrow> world" where
  "save_all chat_id [] w = w"
| "save_all chat_id (t # ts) w = save_all chat_id ts (save_chat_memory chat_id (fst t) (snd t) w)"

text \<open>
  What the insertions keep true of the table: the rows lie in the order of their
  timestamps, which are distinct and all earlier than the clock.
\<close>

definition stamped :: "database \<Rightarrow> bool" where
  "stamped d \<longleftrightarrow>
     sorted_wrt (<) (map cm_created_at (chat_memory d)) \<and>
     list_all (\<lambda>r. cm_created_at r < clock d) (chat_memory d)"

definition empty_db :: database where
  "empty_db = \<lparr>chat_memory = [], pdf_knowledge = [], gd24_tasks = [], clock = 0\<rparr>"

definition empty_world :: world where
  "empty_world = \<lparr>db = empty_db, user_data = \<lparr>last_pdf_id = None, systemMessage = None\<rparr>,
     trace = []\<rparr>"

subsection \<open>Pattern matching of the tasks query\<close>

text \<open>
  \<open>question ILIKE pattern\<close>, as the engine defines it: in the pattern \<open>%\<close> (37)
  stands for any run of characters, \<open>_\<close> (95) for any one character, a backslash (92)
  makes the next character literal, and every other character stands for itself, compared
  after case folding. The whole string must match. A pattern that ends in a lone backslash
  is rejected by the engine when the matcher reaches it; this is the result \<open>None\<close>.
  The case folding \<open>lc\<close> is the engine's and is a parameter.
\<close>

fun ilike :: "(nat \<Rightarrow> nat) \<Rightarrow> pystr \<Rightarrow> pystr \<Rightarrow> bool option" where
  "ilike lc [] s = Some (s = [])"
| "ilike lc (p # ps) [] =
     (if p = 37 then ilike lc ps [] else Some False)"
| "ilike lc (p # ps) (c # cs) =
     (if p = 37 then
        (case ilike lc ps (c # cs) of
           None \<Rightarrow> None
         | Some True \<Rightarrow> Some True
         | Some False \<Rightarrow> ilike lc (p # ps) cs)
      else if p = 95 then ilike lc ps cs
      else if p = 92 then
        (case ps of
           [] \<Rightarrow> None
         | q # qs \<Rightarrow> if lc q = lc c then ilike lc qs cs else Some False)
      else if lc p = lc c then ilike lc ps cs else Some False)"

text \<open>The characters of a query text that the pattern language gives a meaning to.\<close>

definition metachar :: "nat \<Rightarrow> bool" where
  "metachar c \<longleftrightarrow> c = 37 \<or> c = 95 \<or> c = 92"

section \<open>The collaborators\<close>

text \<open>
  What the bot is configured with and what answers it from outside: the administrator's
  id, Python's \<open>str.lower\<close>, the case folding of the storage engine's \<open>ILIKE\<close>, the
  reasoning endpoint and the formula endpoint. An endpoint either cannot be reached or
  answers with a status code and a body. The body of the reasoning endpoint is read as
  \<open>data['choices'][0]['message']['content']\<close>: it is \<open>None\<close> when the body is
  not JSON or the field is missing, and \<open>Some\<close> of the field otherwise. The field is
  a text, or it is present without being a text (a JSON object or array), a value that
  the database driver cannot store. The body of the formula endpoint is the bytes of the
  image.
\<close>

datatype 'a http = Unreachable | Response nat 'a

datatype reply_field = Text pystr | Not_text

record env =
  ADMIN_ID :: int
  str_lower :: "pystr \<Rightarrow> pystr"
  ilike_fold :: "nat \<Rightarrow> nat"
  gemini :: "message list \<Rightarrow> reply_field option http"
  codecogs :: "pystr \<Rightarrow> nat list http"

datatype error = ConnectionError | HTTPError nat | MalformedReply | ProgrammingError | PdfReadError

text \<open>\<open>resp.raise_for_status()\<close> raises for the statuses 400 to 599.\<close>

definition raise_for_status :: "nat \<Rightarrow> bool" where
  "raise_for_status status \<longleftrightarrow> 400 \<le> status \<and> status < 600"

subsection \<open>\<open>query_tasks\<close>\<close>

text \<open>
  \<open>SELECT * FROM gd24_tasks WHERE file_id = %s AND question ILIKE %s LIMIT 5\<close> with the
  pattern \<open>f"%{text}%"\<close>. The rows come in the order of the table.
\<close>

definition task_matches :: "env \<Rightarrow> pystr \<Rightarrow> pystr \<Rightarrow> task_row \<Rightarrow> bool" where
  "task_matches env file_id text r \<longleftrightarrow>
     t_file_id r = file_id \<and>
     ilike (ilike_fold env) (37 # text @ [37]) (t_question r) = Some True"

definition select_tasks :: "env \<Rightarrow> database \<Rightarrow> pystr \<Rightarrow> pystr \<Rightarrow> task_row list" where
  "select_tasks env d file_id text =
     take 5 (filter (task_matches env file_id text) (gd24_tasks d))"

definition query_tasks :: "env \<Rightarrow> pystr \<Rightarrow> pystr \<Rightarrow> world \<Rightarrow> task_row list \<times> world" where
  "query_tasks env file_id text w =
     (select_tasks env (db w) file_id text, emit (Select_gd24_tasks file_id text) w)"

section \<open>The AI agent\<close>

definition default_directive :: pystr where
  "default_directive =
     py ''You are a '' @ [8220] @ py ''Smart Math & Physics Solver'' @ [8221] @
     py '' intelligent assistant with ability to accumulate and apply scientific knowledge from admin-provided PDFs.''"

text \<open>Lines 62 to 69 of \<open>call_gemini\<close>: the messages of the request.\<close>

definition call_gemini_messages :: "message list \<Rightarrow> pystr \<Rightarrow> bool \<Rightarrow> message list" where
  "call_gemini_messages memory user_text system_message =
     (let sys = (if \<not> system_message then default_directive else user_text)
      in [(py ''system'', sys)] @ memory @
         (if \<not> system_message then [(py ''user'', user_text)] else []))"

text \<open>
  The two rows are written by two statements, each committed on its own (lines 79 and 80):
  when the reply field is not a text, the user's row is committed and the second
  statement raises.
\<close>

definition call_gemini :: "env \<Rightarrow> int \<Rightarrow> pystr \<Rightarrow> bool \<Rightarrow> world \<Rightarrow> (error + pystr) \<times> world" where
  "call_gemini env chat_id user_text system_message w =
     (let (memory, w1) = load_chat_memory chat_id 20 w;
          messages = call_gemini_messages memory user_text system_message;
          w2 = emit (Post_gemini messages) w1
      in case gemini env messages of
           Unreachable \<Rightarrow> (Inl ConnectionError, w2)
         | Response status body \<Rightarrow>
             if raise_for_status status then (Inl (HTTPError status), w2)
             else (case body of
                     None \<Rightarrow> (Inl MalformedReply, w2)
                   | Some (Text content) \<Rightarrow>
                       (Inr content,
                        save_chat_memory chat_id (py ''assistant'') content
                          (save_chat_memory chat_id (py ''user'') user_text w2))
                   | Some Not_text \<Rightarrow>
                       (Inl ProgrammingError,
                        save_chat_memory chat_id (py ''user'') user_text w2)))"

text \<open>\<open>render_latex\<close> returns the path of a file that holds the image; the model returns the image.\<close>

definition render_latex :: "env \<Rightarrow> pystr \<Rightarrow> world \<Rightarrow> (error + nat list) \<times> world" where
  "render_latex env latex_expr w =
     (let w1 = emit (Get_latex latex_expr) w
      in case codecogs env latex_expr of
           Unreachable \<Rightarrow> (Inl ConnectionError, w1)
         | Response status content \<Rightarrow>
             if raise_for_status status then (Inl (HTTPError status), w1)
             else (Inr content, w1))"

section \<open>The handlers\<close>

text \<open>
  The transport delivers the updates and carries the replies; a reply is taken as
  delivered. A document arrives downloaded: the reader cannot open it, or it has pages;
  \<open>extract_text\<close> of a page returns a text, returns \<open>None\<close>, or raises.
\<close>

datatype page = Extracted "pystr option" | Extract_raises

datatype pdf_file = Unreadable | Pages "page list"

record document_update =
  du_user_id :: int
  du_chat_id :: int
  du_file_id :: pystr
  du_file :: pdf_file

record text_update =
  tu_chat_id :: int
  tu_text :: "pystr option"

text \<open>\<open>p.extract_text() or ""\<close> for every page, until one raises.\<close>

fun extract_pages :: "page list \<Rightarrow> pystr list option" where
  "extract_pages [] = Some []"
| "extract_pages (Extract_raises # ps) = None"
| "extract_pages (Extracted t # ps) =
     (case extract_pages ps of
        None \<Rightarrow> None
      | Some ts \<Rightarrow> Some ((case t of None \<Rightarrow> [] | Some s \<Rightarrow> s) # ts))"

definition admin_only_notice :: pystr where
  "admin_only_notice =
     [1048, 1079, 1074, 1080, 1085, 1080, 1090, 1077, 44, 32, 1090, 1086, 1083, 1100, 1082,
      1086, 32, 1072, 1076, 1084, 1080, 1085, 32, 1084, 1086, 1078, 1077, 1090, 32, 1079,
      1072, 1075, 1088, 1091, 1078, 1072, 1090, 1100, 32, 80, 68, 70, 32, 1076, 1083, 1103,
      32, 1086, 1073, 1091, 1095, 1077, 1085, 1080, 1103, 46]"

definition saved_notice :: pystr where
  "saved_notice =
     [80, 68, 70, 32, 1091, 1089, 1087, 1077, 1096, 1085, 1086, 32, 1089, 1086, 1093, 1088,
      1072, 1085, 1105, 1085, 32, 1074, 32, 1073, 1072, 1079, 1077, 32, 1079, 1085, 1072,
      1085, 1080, 1081, 46]"

definition insert_pdf_knowledge :: "pystr \<Rightarrow> pystr \<Rightarrow> world \<Rightarrow> world" where
  "insert_pdf_knowledge file_id content w =
     emit (Insert_pdf_knowledge file_id content)
       (w\<lparr>db := (db w)\<lparr>pdf_knowledge := pdf_knowledge (db w) @
          [\<lparr>pk_file_id = file_id, pk_content = content\<rparr>]\<rparr>\<rparr>)"

definition handle_document :: "env \<Rightarrow> document_update \<Rightarrow> world \<Rightarrow> error option \<times> world" where
  "handle_document env u w =
     (if du_user_id u \<noteq> ADMIN_ID env then (None, emit (Reply_text admin_only_notice) w)
      else case du_file u of
             Unreadable \<Rightarrow> (Some PdfReadError, w)
           | Pages ps \<Rightarrow>
               (case extract_pages ps of
                  None \<Rightarrow> (Some PdfReadError, w)
                | Some ts \<Rightarrow>
                    (let text = join [10] ts;
                         w1 = insert_pdf_knowledge (du_file_id u) text w;
                         w2 = w1\<lparr>user_data := (user_data w1)
                                \<lparr>last_pdf_id := Some (du_file_id u), systemMessage := Some True\<rparr>\<rparr>
                     in (None, emit (Reply_text saved_notice) w2))))"

definition greeting_words :: "pystr list" where
  "greeting_words =
     [py ''hi'', py ''hello'',
      [1087, 1088, 1080, 1074, 1077, 1090],
      [1079, 1076, 1088, 1072, 1074, 1089, 1090, 1074, 1091, 1081]]"

definition greeting_reply :: pystr where
  "greeting_reply =
     [1055, 1088, 1080, 1074, 1077, 1090, 33, 32, 1063, 1077, 1084, 32, 1084, 1086, 1075,
      1091, 32, 1087, 1086, 1084, 1086, 1095, 1100, 63]"

definition is_greeting :: "env \<Rightarrow> pystr \<Rightarrow> bool" where
  "is_greeting env text = list_ex (\<lambda>w. sublist w (str_lower env text)) greeting_words"

text \<open>The expression of line 138.\<close>

definition expr :: pystr where
  "expr = py ''A = A_0 '' @ [92] @ py ''left('' @ [92] @ py ''frac{1}{2}'' @ [92] @
     py ''right)^{t/T_{1/2}}''"

text \<open>\<open>update.message.text or ''\<close>.\<close>

definition message_text :: "text_update \<Rightarrow> pystr" where
  "message_text u = (case tu_text u of None \<Rightarrow> [] | Some t \<Rightarrow> t)"

text \<open>
  Lines 131 to 133: the tasks are looked up when \<open>last_pdf_id\<close> is set and not empty;
  nothing is done with them.
\<close>

definition tasks_lookup :: "env \<Rightarrow> pystr \<Rightarrow> world \<Rightarrow> world" where
  "tasks_lookup env text w =
     (case last_pdf_id (user_data w) of
        None \<Rightarrow> w
      | Some last_pdf \<Rightarrow>
          if last_pdf \<noteq> [] then snd (query_tasks env last_pdf text w) else w)"

definition handle_text :: "env \<Rightarrow> text_update \<Rightarrow> world \<Rightarrow> error option \<times> world" where
  "handle_text env u w =
     (let chat_id = tu_chat_id u;
          text = message_text u
      in if is_greeting env text then (None, emit (Reply_text greeting_reply) w)
         else if systemMessage (user_data w) = Some True then
           (None, w\<lparr>user_data := (user_data w)\<lparr>systemMessage := Some False\<rparr>\<rparr>)
         else
           (case call_gemini env chat_id text False (tasks_lookup env text w) of
              (Inl e, w2) \<Rightarrow> (Some e, w2)
            | (Inr answer, w2) \<Rightarrow>
                if 36 \<in> set answer then
                  (case render_latex env expr w2 of
                     (Inl e, w3) \<Rightarrow> (Some e, w3)
                   | (Inr img, w3) \<Rightarrow>
                       (let html = replace [36] [] (replace (py ''**'') (py ''<b>'') answer)
                        in (None, emit (Reply_photo img) (emit (Reply_html html) w3))))
                else (None, emit (Reply_text answer) w2)))"

section \<open>Observations and sample data\<close>

text \<open>What a trace shows: the requests to the two endpoints and the replies to the user.\<close>

fun gemini_requests :: "event list \<Rightarrow> message list list" where
  "gemini_requests [] = []"
| "gemini_requests (Post_gemini ms # es) = ms # gemini_requests es"
| "gemini_requests (e # es) = gemini_requests es"

fun latex_requests :: "event list \<Rightarrow> pystr list" where
  "latex_requests [] = []"
| "latex_requests (Get_latex x # es) = x # latex_requests es"
| "latex_requests (e # es) = latex_requests es"

fun is_reply :: "event \<Rightarrow> bool" where
  "is_reply (Reply_text t) = True"
| "is_reply (Reply_html t) = True"
| "is_reply (Reply_photo b) = True"
| "is_reply e = False"

definition replies :: "event list \<Rightarrow> event list" where
  "replies es = filter is_reply es"

text \<open>A pattern in which every backslash has a character after it.\<close>

fun closed :: "pystr \<Rightarrow> bool" where
  "closed [] = True"
| "closed [p] = (p \<noteq> 92)"
| "closed (p # q # qs) = (if p = 92 then closed qs else closed (q # qs))"

text \<open>The text of a page as \<open>handle_document\<close> takes it.\<close>

fun page_text :: "page \<Rightarrow> pystr" where
  "page_text (Extracted (Some s)) = s"
| "page_text (Extracted None) = []"
| "page_text Extract_raises = []"

text \<open>
  Sample collaborators: lower-casing of the ASCII letters, a reasoning endpoint that
  answers every request with the given body, a formula endpoint that answers with the
  given status.
\<close>

definition ascii_lower :: "nat \<Rightarrow> nat" where
  "ascii_lower c = (if 65 \<le> c \<and> c \<le> 90 then c + 32 else c)"

definition sample_env :: "reply_field option http \<Rightarrow> nat \<Rightarrow> env" where
  "sample_env answer latex_status =
     \<lparr>ADMIN_ID = 1, str_lower = map ascii_lower, ilike_fold = ascii_lower,
      gemini = (\<lambda>ms. answer), codecogs = (\<lambda>x. Response latex_status [137, 80, 78, 71])\<rparr>"

definition primed_world :: world where
  "primed_world = empty_world\<lparr>user_data := \<lparr>last_pdf_id = Some (py ''D''), systemMessage = Some True\<rparr>\<rparr>"

definition six_tasks :: world where
  "six_tasks = empty_world\<lparr>db := empty_db\<lparr>gd24_tasks :=
     map (\<lambda>q. \<lparr>t_file_id = py ''D'', t_question = q\<rparr>)
       [py ''a1'', py ''a2'', py ''a3'', py ''a4'', py ''a5'', py ''a6'']\<rparr>\<rparr>"

section \<open>The memory store: lemmas\<close>

lemma rev_take_rev: "rev (take n (rev xs)) = drop (length xs - n) xs"
  by (simp add: take_rev)

lemma load_chat_memory_history:
  "fst (load_chat_memory c n w) = drop (length (history (db w) c) - n) (history (db w) c)"
  by (simp add: load_chat_memory_def select_chat_memory_def history_def Let_def
      rev_map [symmetric] take_map [symmetric] rev_take_rev drop_map)

lemma stamped_insert:
  assumes "stamped d"
  shows "stamped (insert_chat_memory c r t d)"
  using assms
  by (auto simp: stamped_def insert_chat_memory_def sorted_wrt_append list_all_iff less_Suc_eq)

lemma stamped_history:
  assumes "stamped d"
  shows "history d c = map (\<lambda>r. (cm_role r, cm_content r)) (filter (\<lambda>r. cm_chat_id r = c) (chat_memory d))"
proof -
  have "sorted_wrt (<) (map cm_created_at (filter (\<lambda>r. cm_chat_id r = c) (chat_memory d)))"
    using assms by (simp add: stamped_def sorted_wrt_map sorted_wrt_filter)
  then have "sorted (map cm_created_at (filter (\<lambda>r. cm_chat_id r = c) (chat_memory d)))"
    by (rule strict_sorted_imp_sorted)
  then show ?thesis
    by (simp add: history_def sort_key_id_if_sorted)
qed

lemma history_insert:
  assumes "stamped d"
  shows "history (insert_chat_memory c r t d) c = history d c @ [(r, t)]"
  using stamped_history [OF stamped_insert [OF assms], of c r t c] stamped_history [OF assms, of c]
  by (simp add: insert_chat_memory_def)

lemma history_save_all:
  "stamped (db w) \<Longrightarrow> stamped (db (save_all c ts w)) \<and> history (db (save_all c ts w)) c = history (db w) c @ ts"
proof (induction ts arbitrary: w)
  case Nil
  then show ?case by simp
next
  case (Cons t ts)
  let ?w = "save_chat_memory c (fst t) (snd t) w"
  have db: "db ?w = insert_chat_memory c (fst t) (snd t) (db w)"
    by (simp add: save_chat_memory_def emit_def)
  have st: "stamped (db ?w)"
    using Cons.prems by (simp add: db stamped_insert)
  have "history (db ?w) c = history (db w) c @ [t]"
    using Cons.prems by (simp add: db history_insert)
  with Cons.IH [OF st] show ?case by simp
qed

lemma stamped_empty_db: "stamped empty_db"
  by (simp add: stamped_def empty_db_def)


section \<open>The tasks query: lemmas\<close>

lemma closed_tl: "closed (p # ps) \<Longrightarrow> p \<noteq> 92 \<Longrightarrow> closed ps"
  by (cases ps) auto

lemma ilike_closed: "closed p \<Longrightarrow> ilike lc p s \<noteq> None"
proof (induction lc p s rule: ilike.induct)
  case (1 lc s)
  then show ?case by simp
next
  case (2 lc p ps)
  then show ?case by (auto dest: closed_tl)
next
  case (3 lc p ps c cs)
  show ?case
  proof (cases "p = 92")
    case True
    then obtain q qs where ps: "ps = q # qs" and cl: "closed qs"
      using "3.prems" by (cases ps) auto
    with True "3.IH"(4) [of q qs] show ?thesis by auto
  next
    case False
    then have cl: "closed ps" using "3.prems" by (rule_tac closed_tl)
    show ?thesis
    proof (cases "p = 37")
      case True
      with cl "3.IH"(1,2) "3.prems" show ?thesis
        by (auto split: option.splits bool.splits)
    next
      case False
      with \<open>p \<noteq> 92\<close> cl "3.IH"(3,5) show ?thesis by auto
    qed
  qed
qed

lemma closed_query_pattern: "closed (text @ [37])"
  by (induction "text" rule: closed.induct) auto

lemma ilike_percent: "ilike lc [37] s = Some True"
  by (induction s) auto

lemma ilike_literal:
  "\<forall>c\<in>set text. \<not> metachar c \<Longrightarrow>
   ilike lc (text @ ps) s =
     (if length text \<le> length s \<and> map lc text = map lc (take (length text) s)
      then ilike lc ps (drop (length text) s) else Some False)"
proof (induction "text" arbitrary: s)
  case Nil
  then show ?case by simp
next
  case (Cons t ts)
  then have t: "t \<noteq> 37" "t \<noteq> 95" "t \<noteq> 92" and ts: "\<forall>c\<in>set ts. \<not> metachar c"
    by (auto simp: metachar_def)
  show ?case
  proof (cases s)
    case Nil
    with t show ?thesis by simp
  next
    case (Cons c cs)
    with t Cons.IH [OF ts, of cs] show ?thesis by auto
  qed
qed

lemma prefix_take_iff: "prefix xs ys \<longleftrightarrow> length xs \<le> length ys \<and> xs = take (length xs) ys"
  by (metis prefix_length_le take_is_prefix append_eq_conv_conj prefix_def)

lemma ilike_literal_percent:
  assumes "\<forall>c\<in>set text. \<not> metachar c"
  shows "ilike lc (text @ [37]) s = Some (prefix (map lc text) (map lc s))"
  using ilike_literal [OF assms, of lc "[37]" s]
  by (auto simp: ilike_percent prefix_take_iff [of "map lc text"] take_map)

lemma ilike_contains:
  assumes "\<forall>c\<in>set text. \<not> metachar c"
  shows "ilike lc (37 # text @ [37]) s = Some (sublist (map lc text) (map lc s))"
proof (induction s)
  case Nil
  show ?case using ilike_literal_percent [OF assms, of lc "[]"] by simp
next
  case (Cons c cs)
  show ?case
    using ilike_literal_percent [OF assms, of lc "c # cs"] Cons
    by (auto simp: sublist_Cons_right split: bool.splits)
qed

section \<open>Traces and the reasoning client: lemmas\<close>

lemma emit_simps [simp]:
  "db (emit e w) = db w" "user_data (emit e w) = user_data w" "trace (emit e w) = trace w @ [e]"
  by (simp_all add: emit_def)

lemma save_chat_memory_simps [simp]:
  "db (save_chat_memory c r t w) = insert_chat_memory c r t (db w)"
  "user_data (save_chat_memory c r t w) = user_data w"
  "trace (save_chat_memory c r t w) = trace w @ [Insert_chat_memory c r t]"
  by (simp_all add: save_chat_memory_def)

lemma load_chat_memory_snd [simp]:
  "snd (load_chat_memory c n w) = emit (Select_chat_memory c n) w"
  by (simp add: load_chat_memory_def Let_def)

lemma query_tasks_snd [simp]:
  "snd (query_tasks env f t w) = emit (Select_gd24_tasks f t) w"
  by (simp add: query_tasks_def)

lemma gemini_requests_append [simp]:
  "gemini_requests (xs @ ys) = gemini_requests xs @ gemini_requests ys"
  by (induction xs rule: gemini_requests.induct) auto

lemma latex_requests_append [simp]:
  "latex_requests (xs @ ys) = latex_requests xs @ latex_requests ys"
  by (induction xs rule: latex_requests.induct) auto

lemma replies_append [simp]: "replies (xs @ ys) = replies xs @ replies ys"
  by (simp add: replies_def)

lemma replies_simps [simp]:
  "replies [] = []"
  "replies (Reply_text t # es) = Reply_text t # replies es"
  "replies (Reply_html t # es) = Reply_html t # replies es"
  "replies (Reply_photo b # es) = Reply_photo b # replies es"
  "replies (Select_chat_memory c n # es) = replies es"
  "replies (Insert_chat_memory c r t # es) = replies es"
  "replies (Select_gd24_tasks f q # es) = replies es"
  "replies (Insert_pdf_knowledge f q # es) = replies es"
  "replies (Post_gemini ms # es) = replies es"
  "replies (Get_latex x # es) = replies es"
  by (simp_all add: replies_def)

text \<open>\<open>call_gemini\<close>, outcome by outcome.\<close>

lemma call_gemini_unreachable:
  assumes "gemini env (call_gemini_messages (fst (load_chat_memory c 20 w)) t sm) = Unreachable"
  shows "call_gemini env c t sm w =
    (Inl ConnectionError,
     emit (Post_gemini (call_gemini_messages (fst (load_chat_memory c 20 w)) t sm))
       (emit (Select_chat_memory c 20) w))"
  using assms by (simp add: call_gemini_def load_chat_memory_def Let_def)

lemma call_gemini_status:
  assumes "gemini env (call_gemini_messages (fst (load_chat_memory c 20 w)) t sm) = Response st body"
    and "raise_for_status st"
  shows "call_gemini env c t sm w =
    (Inl (HTTPError st),
     emit (Post_gemini (call_gemini_messages (fst (load_chat_memory c 20 w)) t sm))
       (emit (Select_chat_memory c 20) w))"
  using assms by (simp add: call_gemini_def load_chat_memory_def Let_def)

lemma call_gemini_malformed:
  assumes "gemini env (call_gemini_messages (fst (load_chat_memory c 20 w)) t sm) = Response st None"
    and "\<not> raise_for_status st"
  shows "call_gemini env c t sm w =
    (Inl MalformedReply,
     emit (Post_gemini (call_gemini_messages (fst (load_chat_memory c 20 w)) t sm))
       (emit (Select_chat_memory c 20) w))"
  using assms by (simp add: call_gemini_def load_chat_memory_def Let_def)

lemma call_gemini_reply:
  assumes "gemini env (call_gemini_messages (fst (load_chat_memory c 20 w)) t sm) = Response st (Some (Text reply))"
    and "\<not> raise_for_status st"
  shows "call_gemini env c t sm w =
    (Inr reply,
     save_chat_memory c (py ''assistant'') reply (save_chat_memory c (py ''user'') t
       (emit (Post_gemini (call_gemini_messages (fst (load_chat_memory c 20 w)) t sm))
         (emit (Select_chat_memory c 20) w))))"
  using assms by (simp add: call_gemini_def load_chat_memory_def Let_def)

lemma call_gemini_not_text:
  assumes "gemini env (call_gemini_messages (fst (load_chat_memory c 20 w)) t sm) = Response st (Some Not_text)"
    and "\<not> raise_for_status st"
  shows "call_gemini env c t sm w =
    (Inl ProgrammingError,
     save_chat_memory c (py ''user'') t
       (emit (Post_gemini (call_gemini_messages (fst (load_chat_memory c 20 w)) t sm))
         (emit (Select_chat_memory c 20) w)))"
  using assms by (simp add: call_gemini_def load_chat_memory_def Let_def)

section \<open>The handlers: lemmas\<close>

lemma tasks_lookup_simps [simp]:
  "db (tasks_lookup env t w) = db w"
  "user_data (tasks_lookup env t w) = user_data w"
  by (simp_all add: tasks_lookup_def split: option.splits)

lemma tasks_lookup_trace:
  "trace (tasks_lookup env t w) = trace w @
     (case last_pdf_id (user_data w) of
        None \<Rightarrow> []
      | Some p \<Rightarrow> if p \<noteq> [] then [Select_gd24_tasks p t] else [])"
  by (simp add: tasks_lookup_def split: option.splits)

lemma load_chat_memory_fst:
  "fst (load_chat_memory c n w) = rev (select_chat_memory (db w) c n)"
  by (simp add: load_chat_memory_def Let_def)

lemma gemini_requests_tasks_lookup [simp]:
  "gemini_requests (trace (tasks_lookup env t w)) = gemini_requests (trace w)"
  by (simp add: tasks_lookup_trace split: option.splits)

lemma latex_requests_tasks_lookup [simp]:
  "latex_requests (trace (tasks_lookup env t w)) = latex_requests (trace w)"
  by (simp add: tasks_lookup_trace split: option.splits)

lemma replies_tasks_lookup [simp]:
  "replies (trace (tasks_lookup env t w)) = replies (trace w)"
  by (simp add: tasks_lookup_trace split: option.splits)

lemma is_greeting_iff:
  "is_greeting env t \<longleftrightarrow>
     sublist (py ''hi'') (str_lower env t) \<or> sublist (py ''hello'') (str_lower env t) \<or>
     sublist [1087, 1088, 1080, 1074, 1077, 1090] (str_lower env t) \<or>
     sublist [1079, 1076, 1088, 1072, 1074, 1089, 1090, 1074, 1091, 1081] (str_lower env t)"
  by (simp add: is_greeting_def greeting_words_def)

lemma handle_text_greeting:
  "is_greeting env (message_text u) \<Longrightarrow>
   handle_text env u w = (None, emit (Reply_text greeting_reply) w)"
  by (simp add: handle_text_def)

lemma handle_text_priming:
  "\<not> is_greeting env (message_text u) \<Longrightarrow> systemMessage (user_data w) = Some True \<Longrightarrow>
   handle_text env u w = (None, w\<lparr>user_data := (user_data w)\<lparr>systemMessage := Some False\<rparr>\<rparr>)"
  by (simp add: handle_text_def)

lemma handle_text_failed:
  assumes "\<not> is_greeting env (message_text u)" "systemMessage (user_data w) \<noteq> Some True"
    and "call_gemini env (tu_chat_id u) (message_text u) False (tasks_lookup env (message_text u) w) = (Inl e, w2)"
  shows "handle_text env u w = (Some e, w2)"
  using assms by (simp add: handle_text_def)

lemma handle_text_plain:
  assumes "\<not> is_greeting env (message_text u)" "systemMessage (user_data w) \<noteq> Some True"
    and "call_gemini env (tu_chat_id u) (message_text u) False (tasks_lookup env (message_text u) w) = (Inr answer, w2)"
    and "36 \<notin> set answer"
  shows "handle_text env u w = (None, emit (Reply_text answer) w2)"
  using assms by (simp add: handle_text_def)

lemma handle_text_rich:
  assumes "\<not> is_greeting env (message_text u)" "systemMessage (user_data w) \<noteq> Some True"
    and "call_gemini env (tu_chat_id u) (message_text u) False (tasks_lookup env (message_text u) w) = (Inr answer, w2)"
    and "36 \<in> set answer"
  shows "handle_text env u w =
    (case render_latex env expr w2 of
       (Inl e, w3) \<Rightarrow> (Some e, w3)
     | (Inr img, w3) \<Rightarrow>
         (None, emit (Reply_photo img)
            (emit (Reply_html (replace [36] [] (replace (py ''**'') (py ''<b>'') answer))) w3)))"
  using assms by (simp add: handle_text_def Let_def split: prod.split sum.split)

text \<open>The reasoning client after the lookup of the tasks, which leaves the database as it is.\<close>

lemma call_gemini_after_lookup:
  assumes "gemini env (call_gemini_messages (fst (load_chat_memory c 20 w)) t False) = Response st (Some (Text answer))"
    and "\<not> raise_for_status st"
  shows "call_gemini env c t False (tasks_lookup env t w) =
    (Inr answer,
     save_chat_memory c (py ''assistant'') answer (save_chat_memory c (py ''user'') t
       (emit (Post_gemini (call_gemini_messages (fst (load_chat_memory c 20 w)) t False))
         (emit (Select_chat_memory c 20) (tasks_lookup env t w)))))"
proof -
  have m: "fst (load_chat_memory c 20 (tasks_lookup env t w)) = fst (load_chat_memory c 20 w)"
    by (simp add: load_chat_memory_fst)
  from assms(1) have g: "gemini env (call_gemini_messages
      (fst (load_chat_memory c 20 (tasks_lookup env t w))) t False) = Response st (Some (Text answer))"
    by (simp only: m)
  show ?thesis
    using call_gemini_reply [OF g assms(2)] by (simp only: m)
qed

lemma call_gemini_requests:
  "gemini_requests (trace (snd (call_gemini env c t sm w))) =
     gemini_requests (trace w) @ [call_gemini_messages (fst (load_chat_memory c 20 w)) t sm]"
proof (cases "gemini env (call_gemini_messages (fst (load_chat_memory c 20 w)) t sm)")
  case Unreachable
  then show ?thesis by (simp add: call_gemini_unreachable)
next
  case (Response st body)
  show ?thesis
  proof (cases "raise_for_status st")
    case True
    with Response show ?thesis by (simp add: call_gemini_status)
  next
    case False
    show ?thesis
    proof (cases body)
      case None
      with Response False show ?thesis by (simp add: call_gemini_malformed)
    next
      case (Some field)
      with Response False show ?thesis
        by (cases field) (simp_all add: call_gemini_reply call_gemini_not_text)
    qed
  qed
qed

lemma render_latex_trace [simp]:
  "trace (snd (render_latex env x w)) = trace w @ [Get_latex x]"
  "db (snd (render_latex env x w)) = db w"
  "user_data (snd (render_latex env x w)) = user_data w"
  by (cases "codecogs env x"; simp add: render_latex_def Let_def)+

lemma render_latex_fails:
  "fst (render_latex env x w) =
     (case codecogs env x of
        Unreachable \<Rightarrow> Inl ConnectionError
      | Response st img \<Rightarrow> if raise_for_status st then Inl (HTTPError st) else Inr img)"
  by (cases "codecogs env x") (simp_all add: render_latex_def Let_def)

text \<open>The requests of a turn: none for a greeting or a priming turn, one otherwise.\<close>

lemma handle_text_requests:
  "gemini_requests (trace (snd (handle_text env u w))) = gemini_requests (trace w) @
     (if is_greeting env (message_text u) \<or> systemMessage (user_data w) = Some True then []
      else [call_gemini_messages (fst (load_chat_memory (tu_chat_id u) 20 w)) (message_text u) False])"
proof (cases "is_greeting env (message_text u)")
  case True
  then show ?thesis by (simp add: handle_text_greeting)
next
  case g: False
  show ?thesis
  proof (cases "systemMessage (user_data w) = Some True")
    case True
    with g show ?thesis by (simp add: handle_text_priming)
  next
    case s: False
    let ?ms = "call_gemini_messages (fst (load_chat_memory (tu_chat_id u) 20 w)) (message_text u) False"
    obtain r w2 where cg: "call_gemini env (tu_chat_id u) (message_text u) False
        (tasks_lookup env (message_text u) w) = (r, w2)"
      by (cases "call_gemini env (tu_chat_id u) (message_text u) False
        (tasks_lookup env (message_text u) w)")
    have p: "gemini_requests (trace w2) = gemini_requests (trace w) @ [?ms]"
      using cg call_gemini_requests [of env "tu_chat_id u" "message_text u" False
          "tasks_lookup env (message_text u) w"]
      by (simp add: load_chat_memory_fst)
    have "gemini_requests (trace (snd (handle_text env u w))) = gemini_requests (trace w2)"
    proof (cases r)
      case (Inl e)
      with cg handle_text_failed [OF g s, of e w2] show ?thesis by simp
    next
      case (Inr answer)
      show ?thesis
      proof (cases "36 \<in> set answer")
        case False
        with cg Inr handle_text_plain [OF g s, of answer w2] show ?thesis by simp
      next
        case True
        obtain a w3 where rl: "render_latex env expr w2 = (a, w3)"
          by (cases "render_latex env expr w2")
        have t3: "trace w3 = trace w2 @ [Get_latex expr]"
          using render_latex_trace(1) [of env expr w2] rl by simp
        from cg Inr True rl t3 handle_text_rich [OF g s, of answer w2]
        show ?thesis by (cases a) simp_all
      qed
    qed
    with p g s show ?thesis by simp
  qed
qed

text \<open>A turn that reaches the reasoning client and gets an answer.\<close>

lemma answered_turn:
  assumes "\<not> is_greeting env (message_text u)" "systemMessage (user_data w) \<noteq> Some True"
    and "gemini env (call_gemini_messages (fst (load_chat_memory (tu_chat_id u) 20 w))
           (message_text u) False) = Response st (Some (Text answer))"
    and "\<not> raise_for_status st"
  shows "handle_text env u w =
    (let w2 = save_chat_memory (tu_chat_id u) (py ''assistant'') answer
                (save_chat_memory (tu_chat_id u) (py ''user'') (message_text u)
                  (emit (Post_gemini (call_gemini_messages
                      (fst (load_chat_memory (tu_chat_id u) 20 w)) (message_text u) False))
                    (emit (Select_chat_memory (tu_chat_id u) 20)
                      (tasks_lookup env (message_text u) w))))
     in if 36 \<in> set answer then
          (case render_latex env expr w2 of
             (Inl e, w3) \<Rightarrow> (Some e, w3)
           | (Inr img, w3) \<Rightarrow>
               (None, emit (Reply_photo img)
                  (emit (Reply_html (replace [36] [] (replace (py ''**'') (py ''<b>'') answer))) w3)))
        else (None, emit (Reply_text answer) w2))"
proof (cases "36 \<in> set answer")
  case True
  show ?thesis
    using handle_text_rich [OF assms(1,2) call_gemini_after_lookup [OF assms(3,4)] True] True
    by (simp only: Let_def if_True)
next
  case False
  show ?thesis
    using handle_text_plain [OF assms(1,2) call_gemini_after_lookup [OF assms(3,4)] False] False
    by (simp only: Let_def if_False)
qed

text \<open>Ingestion.\<close>

lemma extract_pages_eq:
  "extract_pages ps = (if Extract_raises \<in> set ps then None else Some (map page_text ps))"
proof (induction ps rule: extract_pages.induct)
  case 1
  then show ?case by simp
next
  case (2 ps)
  then show ?case by simp
next
  case (3 t ps)
  then show ?case by (cases t) auto
qed

lemma handle_document_stored:
  assumes "du_user_id u = ADMIN_ID env" "du_file u = Pages ps" "Extract_raises \<notin> set ps"
  shows "handle_document env u w =
    (None, emit (Reply_text saved_notice)
       ((insert_pdf_knowledge (du_file_id u) (join [10] (map page_text ps)) w)
          \<lparr>user_data := (user_data w)\<lparr>last_pdf_id := Some (du_file_id u), systemMessage := Some True\<rparr>\<rparr>))"
  using assms by (simp add: handle_document_def extract_pages_eq Let_def insert_pdf_knowledge_def)

lemma handle_document_aborted:
  assumes "du_user_id u = ADMIN_ID env"
    and "du_file u = Unreadable \<or> (\<exists>ps. du_file u = Pages ps \<and> Extract_raises \<in> set ps)"
  shows "handle_document env u w = (Some PdfReadError, w)"
  using assms by (auto simp: handle_document_def extract_pages_eq)

lemma handle_document_tasks [simp]:
  "gd24_tasks (db (snd (handle_document env u w))) = gd24_tasks (db w)"
  by (simp add: handle_document_def insert_pdf_knowledge_def Let_def
      split: pdf_file.split option.split)

text \<open>The tasks query.\<close>

lemma query_tasks_fst [simp]:
  "fst (query_tasks env fid q w) = take 5 (filter (task_matches env fid q) (gd24_tasks (db w)))"
  by (simp add: query_tasks_def select_tasks_def)

lemma query_pattern_accepted: "ilike lc (37 # q @ [37]) s \<noteq> None"
  using closed_query_pattern [of "37 # q"] by (intro ilike_closed) simp

lemma task_matches_literal:
  assumes "\<forall>c\<in>set q. \<not> metachar c"
  shows "task_matches env fid q r \<longleftrightarrow>
    t_file_id r = fid \<and> sublist (map (ilike_fold env) q) (map (ilike_fold env) (t_question r))"
  by (simp add: task_matches_def ilike_contains [OF assms])

section \<open>The sample data: lemmas\<close>

lemma empty_world_simps:
  "db empty_world = empty_db" "trace empty_world = []"
  "last_pdf_id (user_data empty_world) = None" "systemMessage (user_data empty_world) = None"
  by (simp_all add: empty_world_def)

lemma primed_world_simps:
  "db primed_world = empty_db" "trace primed_world = []"
  "last_pdf_id (user_data primed_world) = Some (py ''D'')"
  "systemMessage (user_data primed_world) = Some True"
  by (simp_all add: primed_world_def empty_world_def)

lemma sample_env_simps:
  "ADMIN_ID (sample_env a n) = 1" "str_lower (sample_env a n) = map ascii_lower"
  "ilike_fold (sample_env a n) = ascii_lower" "gemini (sample_env a n) ms = a"
  "codecogs (sample_env a n) x = Response n [137, 80, 78, 71]"
  by (simp_all add: sample_env_def)

lemma not_greeting_sample: "\<not> is_greeting (sample_env a n) (py ''2+2?'')"
  by (simp add: is_greeting_def greeting_words_def sample_env_simps py_def ascii_lower_def
      sublist_code)

lemma not_greeting_samples:
  "\<not> is_greeting (sample_env a n) (py ''Answer briefly'')"
  "\<not> is_greeting (sample_env a n) (py ''Be verbose'')"
  by (simp_all add: is_greeting_def greeting_words_def sample_env_simps py_def ascii_lower_def
      sublist_code)

lemma greeting_sample: "is_greeting (sample_env a n) (py ''I think so'')"
  by (simp add: is_greeting_def greeting_words_def sample_env_simps py_def ascii_lower_def
      sublist_code)

lemma dollar_sample: "36 \<in> set (py ''$x^2$'')"
  by (simp add: py_def)

lemma sample_rich_turn:
  "handle_text (sample_env (Response 200 (Some (Text (py ''$x^2$'')))) n)
       \<lparr>tu_chat_id = 7, tu_text = Some (py ''2+2?'')\<rparr> empty_world =
   (case render_latex (sample_env (Response 200 (Some (Text (py ''$x^2$'')))) n) expr
      (save_chat_memory 7 (py ''assistant'') (py ''$x^2$'')
        (save_chat_memory 7 (py ''user'') (py ''2+2?'')
          (emit (Post_gemini (call_gemini_messages (fst (load_chat_memory 7 20 empty_world))
              (py ''2+2?'') False))
            (emit (Select_chat_memory 7 20) empty_world)))) of
      (Inl e, w3) \<Rightarrow> (Some e, w3)
    | (Inr img, w3) \<Rightarrow>
        (None, emit (Reply_photo img)
           (emit (Reply_html (replace [36] [] (replace (py ''**'') (py ''<b>'') (py ''$x^2$'')))) w3)))"
proof -
  let ?env = "sample_env (Response 200 (Some (Text (py ''$x^2$'')))) n"
  let ?u = "\<lparr>tu_chat_id = 7, tu_text = Some (py ''2+2?'')\<rparr>"
  have t: "message_text ?u = py ''2+2?''" by (simp add: message_text_def)
  have g: "\<not> is_greeting ?env (message_text ?u)"
    unfolding t by (rule not_greeting_sample)
  have s: "systemMessage (user_data empty_world) \<noteq> Some True"
    by (simp add: empty_world_simps)
  have r: "gemini ?env (call_gemini_messages (fst (load_chat_memory (tu_chat_id ?u) 20 empty_world))
      (message_text ?u) False) = Response 200 (Some (Text (py ''$x^2$'')))"
    by (simp add: sample_env_simps)
  have ok: "\<not> raise_for_status 200" by (simp add: raise_for_status_def)
  have l: "tasks_lookup ?env (py ''2+2?'') empty_world = empty_world"
    by (simp add: tasks_lookup_def empty_world_simps)
  show ?thesis
    using answered_turn [OF g s r ok] dollar_sample by (simp add: t l)
qed

lemma replace_sample:
  "replace [36] [] (replace (py ''**'') (py ''<b>'') (py ''$x^2$'')) = py ''x^2''"
  by (simp add: py_def replace.simps)

lemma six_tasks_rows:
  "gd24_tasks (db six_tasks) =
     [\<lparr>t_file_id = py ''D'', t_question = py ''a1''\<rparr>, \<lparr>t_file_id = py ''D'', t_question = py ''a2''\<rparr>,
      \<lparr>t_file_id = py ''D'', t_question = py ''a3''\<rparr>, \<lparr>t_file_id = py ''D'', t_question = py ''a4''\<rparr>,
      \<lparr>t_file_id = py ''D'', t_question = py ''a5''\<rparr>, \<lparr>t_file_id = py ''D'', t_question = py ''a6''\<rparr>]"
  by (simp add: six_tasks_def empty_world_def)

lemma plain_a: "\<forall>c\<in>set (py ''a''). \<not> metachar c"
  by (simp add: py_def metachar_def)

lemma plain_6: "\<forall>c\<in>set (py ''6''). \<not> metachar c"
  by (simp add: py_def metachar_def)

lemma six_tasks_query_a:
  "fst (query_tasks (sample_env a n) (py ''D'') (py ''a'') six_tasks) =
     [\<lparr>t_file_id = py ''D'', t_question = py ''a1''\<rparr>, \<lparr>t_file_id = py ''D'', t_question = py ''a2''\<rparr>,
      \<lparr>t_file_id = py ''D'', t_question = py ''a3''\<rparr>, \<lparr>t_file_id = py ''D'', t_question = py ''a4''\<rparr>,
      \<lparr>t_file_id = py ''D'', t_question = py ''a5''\<rparr>]"
  by (simp add: six_tasks_rows task_matches_literal [OF plain_a] sample_env_simps)
     (simp add: py_def ascii_lower_def sublist_code)

lemma six_tasks_query_6:
  "filter (task_matches (sample_env a n) (py ''D'') (py ''6'')) (gd24_tasks (db six_tasks)) =
     [\<lparr>t_file_id = py ''D'', t_question = py ''a6''\<rparr>]"
  by (simp add: six_tasks_rows task_matches_literal [OF plain_6] sample_env_simps)
     (simp add: py_def ascii_lower_def sublist_code)

section \<open>The claims\<close>

text \<open>
  C1, as the code has it. A text turn that arrives while \<open>systemMessage\<close> is set sends
  no request to the reasoning endpoint and writes nothing. When it is not a greeting the
  handler resets the flag and returns: the result does not depend on the text, which is
  discarded, not assembled into any context. Whatever the state, a request that
  \<open>handle_text\<close> sends has the default directive as its system message and the text of
  the turn as its last, user message. The promotion of the text to the system message,
  first and with no user message after the memory, is the assembly of \<open>call_gemini\<close>
  called with \<open>system_message\<close> true, which sends that request; \<open>handle_text\<close> never
  calls it so.
\<close>

theorem C1_priming_text_is_discarded:
  "(systemMessage (user_data w) = Some True \<longrightarrow>
      fst (handle_text env u w) = None \<and>
      gemini_requests (trace (snd (handle_text env u w))) = gemini_requests (trace w) \<and>
      db (snd (handle_text env u w)) = db w \<and>
      (\<not> is_greeting env (message_text u) \<longrightarrow>
         handle_text env u w =
           (None, w\<lparr>user_data := (user_data w)\<lparr>systemMessage := Some False\<rparr>\<rparr>))) \<and>
   (gemini_requests (trace (snd (handle_text env u w))) = gemini_requests (trace w) \<or>
    gemini_requests (trace (snd (handle_text env u w))) = gemini_requests (trace w) @
      [(py ''system'', default_directive) # fst (load_chat_memory (tu_chat_id u) 20 w) @
       [(py ''user'', message_text u)]]) \<and>
   gemini_requests (trace (snd (call_gemini env c t True w))) =
     gemini_requests (trace w) @ [(py ''system'', t) # fst (load_chat_memory c 20 w)]"
proof -
  have primed: "fst (handle_text env u w) = None \<and>
      gemini_requests (trace (snd (handle_text env u w))) = gemini_requests (trace w) \<and>
      db (snd (handle_text env u w)) = db w \<and>
      (\<not> is_greeting env (message_text u) \<longrightarrow>
         handle_text env u w =
           (None, w\<lparr>user_data := (user_data w)\<lparr>systemMessage := Some False\<rparr>\<rparr>))"
    if "systemMessage (user_data w) = Some True"
  proof (cases "is_greeting env (message_text u)")
    case True
    then show ?thesis by (simp add: handle_text_greeting)
  next
    case False
    with that show ?thesis by (simp add: handle_text_priming)
  qed
  have sent: "gemini_requests (trace (snd (handle_text env u w))) = gemini_requests (trace w) \<or>
    gemini_requests (trace (snd (handle_text env u w))) = gemini_requests (trace w) @
      [(py ''system'', default_directive) # fst (load_chat_memory (tu_chat_id u) 20 w) @
       [(py ''user'', message_text u)]]"
    by (simp add: handle_text_requests call_gemini_messages_def)
  have mode: "gemini_requests (trace (snd (call_gemini env c t True w))) =
     gemini_requests (trace w) @ [(py ''system'', t) # fst (load_chat_memory c 20 w)]"
    by (simp add: call_gemini_requests call_gemini_messages_def)
  from primed sent mode show ?thesis by blast
qed

theorem C1_priming_text_is_discarded_witness:
  "systemMessage (user_data primed_world) = Some True \<and>
   \<not> is_greeting (sample_env (Response 200 (Some (Text (py ''ok'')))) 200)
       (message_text \<lparr>tu_chat_id = 7, tu_text = Some (py ''Answer briefly'')\<rparr>) \<and>
   handle_text (sample_env (Response 200 (Some (Text (py ''ok'')))) 200)
       \<lparr>tu_chat_id = 7, tu_text = Some (py ''Answer briefly'')\<rparr> primed_world =
     (None, primed_world\<lparr>user_data := (user_data primed_world)\<lparr>systemMessage := Some False\<rparr>\<rparr>) \<and>
   gemini_requests (trace (snd (handle_text (sample_env (Response 200 (Some (Text (py ''ok'')))) 200)
       \<lparr>tu_chat_id = 7, tu_text = Some (py ''Answer briefly'')\<rparr> primed_world))) = [] \<and>
   gemini_requests (trace (snd (call_gemini (sample_env (Response 200 (Some (Text (py ''ok'')))) 200)
       7 (py ''Answer briefly'') True primed_world))) = [[(py ''system'', py ''Answer briefly'')]]"
proof -
  let ?env = "sample_env (Response 200 (Some (Text (py ''ok'')))) 200"
  let ?u = "\<lparr>tu_chat_id = 7, tu_text = Some (py ''Answer briefly'')\<rparr>"
  note claim = C1_priming_text_is_discarded
    [where w = primed_world and env = ?env and u = ?u and c = 7 and t = "py ''Answer briefly''"]
  have p: "systemMessage (user_data primed_world) = Some True"
    by (simp add: primed_world_simps)
  have g: "\<not> is_greeting ?env (message_text ?u)"
    by (simp add: message_text_def not_greeting_samples)
  have l: "fst (load_chat_memory 7 20 primed_world) = []"
    by (simp add: load_chat_memory_fst select_chat_memory_def primed_world_simps empty_db_def)
  from claim p g have a: "handle_text ?env ?u primed_world =
      (None, primed_world\<lparr>user_data := (user_data primed_world)\<lparr>systemMessage := Some False\<rparr>\<rparr>)"
    by blast
  from claim p have b: "gemini_requests (trace (snd (handle_text ?env ?u primed_world))) =
      gemini_requests (trace primed_world)"
    by blast
  from claim have c: "gemini_requests (trace (snd (call_gemini ?env 7 (py ''Answer briefly'') True
      primed_world))) = gemini_requests (trace primed_world) @
        [(py ''system'', py ''Answer briefly'') # fst (load_chat_memory 7 20 primed_world)]"
    by blast
  from p g a b c show ?thesis
    by (simp add: primed_world_simps l)
qed

text \<open>
  The claim as the spec states it fails: on a priming turn no context is assembled and
  the text is dropped. Two different priming texts leave the conversation in the same
  state with no request sent, and the request of the next turn has the default directive
  as its system message, not the priming text.
\<close>

theorem C1_priming_text_counterexample:
  "systemMessage (user_data primed_world) = Some True \<and>
   handle_text (sample_env (Response 200 (Some (Text (py ''ok'')))) 200)
       \<lparr>tu_chat_id = 7, tu_text = Some (py ''Answer briefly'')\<rparr> primed_world =
     handle_text (sample_env (Response 200 (Some (Text (py ''ok'')))) 200)
       \<lparr>tu_chat_id = 7, tu_text = Some (py ''Be verbose'')\<rparr> primed_world \<and>
   gemini_requests (trace (snd (handle_text (sample_env (Response 200 (Some (Text (py ''ok'')))) 200)
       \<lparr>tu_chat_id = 7, tu_text = Some (py ''Answer briefly'')\<rparr> primed_world))) = [] \<and>
   chat_memory (db (snd (handle_text (sample_env (Response 200 (Some (Text (py ''ok'')))) 200)
       \<lparr>tu_chat_id = 7, tu_text = Some (py ''Answer briefly'')\<rparr> primed_world))) = [] \<and>
   gemini_requests (trace (snd (handle_text (sample_env (Response 200 (Some (Text (py ''ok'')))) 200)
       \<lparr>tu_chat_id = 7, tu_text = Some (py ''2+2?'')\<rparr>
       (snd (handle_text (sample_env (Response 200 (Some (Text (py ''ok'')))) 200)
         \<lparr>tu_chat_id = 7, tu_text = Some (py ''Answer briefly'')\<rparr> primed_world))))) =
     [[(py ''system'', default_directive), (py ''user'', py ''2+2?'')]] \<and>
   default_directive \<noteq> py ''Answer briefly''"
proof -
  let ?env = "sample_env (Response 200 (Some (Text (py ''ok'')))) 200"
  let ?w1 = "primed_world\<lparr>user_data := (user_data primed_world)\<lparr>systemMessage := Some False\<rparr>\<rparr>"
  have p: "systemMessage (user_data primed_world) = Some True"
    by (simp add: primed_world_simps)
  have h1: "handle_text ?env \<lparr>tu_chat_id = 7, tu_text = Some (py ''Answer briefly'')\<rparr> primed_world =
      (None, ?w1)"
    by (rule handle_text_priming) (simp_all add: message_text_def not_greeting_samples p)
  have h2: "handle_text ?env \<lparr>tu_chat_id = 7, tu_text = Some (py ''Be verbose'')\<rparr> primed_world =
      (None, ?w1)"
    by (rule handle_text_priming) (simp_all add: message_text_def not_greeting_samples p)
  have l: "fst (load_chat_memory 7 20 ?w1) = []"
    by (simp add: load_chat_memory_fst select_chat_memory_def primed_world_simps empty_db_def)
  have next_turn: "gemini_requests (trace (snd (handle_text ?env
      \<lparr>tu_chat_id = 7, tu_text = Some (py ''2+2?'')\<rparr> ?w1))) =
      [[(py ''system'', default_directive), (py ''user'', py ''2+2?'')]]"
    by (simp add: handle_text_requests message_text_def not_greeting_sample l
        call_gemini_messages_def primed_world_simps)
  have d: "default_directive \<noteq> py ''Answer briefly''"
    by (simp add: default_directive_def py_def)
  from p d next_turn show ?thesis
    by (simp add: h1 h2 primed_world_simps empty_db_def)
qed




text \<open>
  C3. \<open>load_chat_memory\<close> returns at most \<open>limit\<close> turns, and they are the last
  \<open>limit\<close> turns of the conversation's history, oldest first. A conversation without
  rows gives the empty list. In a table stamped by insertions the history is the order of
  insertion, and after appending \<open>t1, ..., tn\<close> the last \<open>n\<close> turns are exactly
  \<open>t1, ..., tn\<close>.
\<close>

theorem C3_recent_window:
  "length (fst (load_chat_memory c n w)) \<le> n \<and>
   fst (load_chat_memory c n w) = drop (length (history (db w) c) - n) (history (db w) c) \<and>
   ((\<forall>r\<in>set (chat_memory (db w)). cm_chat_id r \<noteq> c) \<longrightarrow> fst (load_chat_memory c n w) = []) \<and>
   (stamped (db w) \<longrightarrow>
      history (db w) c =
        map (\<lambda>r. (cm_role r, cm_content r)) (filter (\<lambda>r. cm_chat_id r = c) (chat_memory (db w))) \<and>
      fst (load_chat_memory c (length ts) (save_all c ts w)) = ts)"
proof -
  have window: "fst (load_chat_memory c n w) = drop (length (history (db w) c) - n) (history (db w) c)"
    by (rule load_chat_memory_history)
  have bound: "length (fst (load_chat_memory c n w)) \<le> n"
    unfolding window by simp
  have none: "fst (load_chat_memory c n w) = []" if "\<forall>r\<in>set (chat_memory (db w)). cm_chat_id r \<noteq> c"
  proof -
    from that have "filter (\<lambda>r. cm_chat_id r = c) (chat_memory (db w)) = []"
      by (simp add: filter_empty_conv)
    then have "history (db w) c = []" by (simp add: history_def)
    then show ?thesis by (simp add: window)
  qed
  have round: "fst (load_chat_memory c (length ts) (save_all c ts w)) = ts" if "stamped (db w)"
    using history_save_all [OF that, of c ts]
    by (simp add: load_chat_memory_history)
  from window bound none round stamped_history show ?thesis by blast
qed

theorem C3_recent_window_witness:
  "stamped (db empty_world) \<and>
   chat_memory (db empty_world) = [] \<and>
   fst (load_chat_memory 7 20 empty_world) = [] \<and>
   fst (load_chat_memory 7 2
     (save_all 7 [(py ''user'', py ''Hello''), (py ''assistant'', py ''Hi there'')] empty_world)) =
     [(py ''user'', py ''Hello''), (py ''assistant'', py ''Hi there'')]"
proof -
  have s: "stamped (db empty_world)"
    by (simp add: empty_world_def stamped_empty_db)
  have e: "\<forall>r\<in>set (chat_memory (db empty_world)). cm_chat_id r \<noteq> 7"
    by (simp add: empty_world_def empty_db_def)
  have n: "chat_memory (db empty_world) = []"
    by (simp add: empty_world_def empty_db_def)
  from s e n
    C3_recent_window [of 7 20 empty_world "[(py ''user'', py ''Hello''), (py ''assistant'', py ''Hi there'')]"]
  show ?thesis by (simp add: numeral_2_eq_2)
qed

text \<open>
  C4, as the code has it. \<open>query_tasks\<close> returns at most five rows of the table
  \<open>gd24_tasks\<close>; each has the given \<open>file_id\<close> and a question that matches the
  pattern made of the query text between two \<open>%\<close>, a pattern the engine always
  accepts. When at most five rows qualify, all of them are returned. For a query text
  without the pattern characters \<open>%\<close>, \<open>_\<close> and backslash, a row qualifies exactly
  when it has the \<open>file_id\<close> and its question contains the query text, both case
  folded. The table \<open>pdf_knowledge\<close> that ingestion writes is not the one searched:
  ingesting a document never changes a result.
\<close>

theorem C4_tasks_query:
  "length (fst (query_tasks env fid q w)) \<le> 5 \<and>
   (\<forall>r\<in>set (fst (query_tasks env fid q w)).
      r \<in> set (gd24_tasks (db w)) \<and> t_file_id r = fid \<and>
      ilike (ilike_fold env) (37 # q @ [37]) (t_question r) = Some True) \<and>
   (length (filter (task_matches env fid q) (gd24_tasks (db w))) \<le> 5 \<longrightarrow>
      fst (query_tasks env fid q w) = filter (task_matches env fid q) (gd24_tasks (db w))) \<and>
   ilike (ilike_fold env) (37 # q @ [37]) s \<noteq> None \<and>
   ((\<forall>c\<in>set q. \<not> metachar c) \<longrightarrow>
      (task_matches env fid q r \<longleftrightarrow>
         t_file_id r = fid \<and>
         sublist (map (ilike_fold env) q) (map (ilike_fold env) (t_question r)))) \<and>
   fst (query_tasks env fid q (snd (handle_document env u w))) = fst (query_tasks env fid q w)"
proof -
  have sub: "r \<in> set (gd24_tasks (db w)) \<and> t_file_id r = fid \<and>
      ilike (ilike_fold env) (37 # q @ [37]) (t_question r) = Some True"
    if "r \<in> set (fst (query_tasks env fid q w))" for r
  proof -
    from that have "r \<in> set (filter (task_matches env fid q) (gd24_tasks (db w)))"
      by (auto dest: in_set_takeD)
    then show ?thesis by (simp add: task_matches_def)
  qed
  have all: "fst (query_tasks env fid q w) = filter (task_matches env fid q) (gd24_tasks (db w))"
    if "length (filter (task_matches env fid q) (gd24_tasks (db w))) \<le> 5"
    using that by simp
  have same: "fst (query_tasks env fid q (snd (handle_document env u w))) =
      fst (query_tasks env fid q w)"
    by simp
  have len: "length (fst (query_tasks env fid q w)) \<le> 5" by simp
  from len sub all same query_pattern_accepted [of "ilike_fold env" q s]
    task_matches_literal [of q env fid r]
  show ?thesis by blast
qed

theorem C4_tasks_query_witness:
  "(length (filter (task_matches (sample_env Unreachable 200) (py ''D'') (py ''6''))
       (gd24_tasks (db six_tasks))) \<le> 5) \<and>
   fst (query_tasks (sample_env Unreachable 200) (py ''D'') (py ''6'') six_tasks) =
     [\<lparr>t_file_id = py ''D'', t_question = py ''a6''\<rparr>] \<and>
   task_matches (sample_env Unreachable 200) (py ''D'') (py ''6'')
     \<lparr>t_file_id = py ''D'', t_question = py ''a6''\<rparr> \<and>
   sublist (map (ilike_fold (sample_env Unreachable 200)) (py ''6''))
     (map (ilike_fold (sample_env Unreachable 200)) (py ''a6''))"
proof -
  have l: "length (filter (task_matches (sample_env Unreachable 200) (py ''D'') (py ''6''))
       (gd24_tasks (db six_tasks))) \<le> 5"
    by (simp add: six_tasks_query_6)
  from C4_tasks_query [of "sample_env Unreachable 200" "py ''D''" "py ''6''" six_tasks "[]"
      "\<lparr>t_file_id = py ''D'', t_question = py ''a6''\<rparr>"] l plain_6
  show ?thesis
    by (simp add: six_tasks_query_6 ilike_contains [OF plain_6])
qed

text \<open>
  The claim as the spec states it fails twice: of six rows that contain the query text
  only five are returned, and a unit ingested under \<open>D\<close> is not found by a search of
  \<open>D\<close> for its own content.
\<close>

theorem C4_limit_and_table_counterexample:
  "\<lparr>t_file_id = py ''D'', t_question = py ''a6''\<rparr> \<in> set (gd24_tasks (db six_tasks)) \<and>
   sublist (map ascii_lower (py ''a'')) (map ascii_lower (py ''a6'')) \<and>
   \<lparr>t_file_id = py ''D'', t_question = py ''a6''\<rparr> \<notin>
     set (fst (query_tasks (sample_env Unreachable 200) (py ''D'') (py ''a'') six_tasks)) \<and>
   pdf_knowledge (db (snd (handle_document (sample_env Unreachable 200)
       \<lparr>du_user_id = 1, du_chat_id = 7, du_file_id = py ''D'',
         du_file = Pages [Extracted (Some (py ''abc''))]\<rparr> empty_world))) =
     [\<lparr>pk_file_id = py ''D'', pk_content = py ''abc''\<rparr>] \<and>
   fst (query_tasks (sample_env Unreachable 200) (py ''D'') (py ''abc'')
       (snd (handle_document (sample_env Unreachable 200)
         \<lparr>du_user_id = 1, du_chat_id = 7, du_file_id = py ''D'',
           du_file = Pages [Extracted (Some (py ''abc''))]\<rparr> empty_world))) = []"
proof -
  have a: "\<lparr>t_file_id = py ''D'', t_question = py ''a6''\<rparr> \<in> set (gd24_tasks (db six_tasks))"
    by (simp add: six_tasks_rows)
  have b: "sublist (map ascii_lower (py ''a'')) (map ascii_lower (py ''a6''))"
    by (simp add: py_def ascii_lower_def sublist_code)
  have c: "\<lparr>t_file_id = py ''D'', t_question = py ''a6''\<rparr> \<notin>
     set (fst (query_tasks (sample_env Unreachable 200) (py ''D'') (py ''a'') six_tasks))"
    unfolding six_tasks_query_a by (simp add: py_def)
  have d: "pdf_knowledge (db (snd (handle_document (sample_env Unreachable 200)
       \<lparr>du_user_id = 1, du_chat_id = 7, du_file_id = py ''D'',
         du_file = Pages [Extracted (Some (py ''abc''))]\<rparr> empty_world))) =
     [\<lparr>pk_file_id = py ''D'', pk_content = py ''abc''\<rparr>]"
    by (simp add: handle_document_def sample_env_simps insert_pdf_knowledge_def Let_def
        empty_world_simps empty_db_def)
  have e: "fst (query_tasks (sample_env Unreachable 200) (py ''D'') (py ''abc'')
       (snd (handle_document (sample_env Unreachable 200)
         \<lparr>du_user_id = 1, du_chat_id = 7, du_file_id = py ''D'',
           du_file = Pages [Extracted (Some (py ''abc''))]\<rparr> empty_world))) = []"
    by (simp add: empty_world_simps empty_db_def)
  from a b c d e show ?thesis by blast
qed

text \<open>
  C5, as the code has it. When \<open>systemMessage\<close> is set, a text turn that is not a
  greeting resets it and does nothing else: no reply, no request, no write. The next text
  turn that is not a greeting is sent to the reasoning endpoint as a user message, after
  the default directive and the replayed memory. A greeting turn leaves the flag as it
  is.
\<close>

theorem C5_priming_consumed_by_next_plain_turn:
  assumes "systemMessage (user_data w) = Some True"
    and "\<not> is_greeting env (message_text u1)" and "\<not> is_greeting env (message_text u2)"
  shows "fst (handle_text env u1 w) = None \<and>
    systemMessage (user_data (snd (handle_text env u1 w))) = Some False \<and>
    last_pdf_id (user_data (snd (handle_text env u1 w))) = last_pdf_id (user_data w) \<and>
    db (snd (handle_text env u1 w)) = db w \<and>
    trace (snd (handle_text env u1 w)) = trace w \<and>
    gemini_requests (trace (snd (handle_text env u2 (snd (handle_text env u1 w))))) =
      gemini_requests (trace w) @
      [[(py ''system'', default_directive)] @ fst (load_chat_memory (tu_chat_id u2) 20 w) @
       [(py ''user'', message_text u2)]] \<and>
    (is_greeting env (message_text u3) \<longrightarrow>
       user_data (snd (handle_text env u3 w)) = user_data w)"
proof -
  let ?w1 = "w\<lparr>user_data := (user_data w)\<lparr>systemMessage := Some False\<rparr>\<rparr>"
  let ?ms = "call_gemini_messages (fst (load_chat_memory (tu_chat_id u2) 20 ?w1)) (message_text u2) False"
  have h1: "handle_text env u1 w = (None, ?w1)"
    using assms(1,2) by (simp add: handle_text_priming)
  have s1: "systemMessage (user_data ?w1) \<noteq> Some True" by simp
  have m: "fst (load_chat_memory (tu_chat_id u2) 20 ?w1) = fst (load_chat_memory (tu_chat_id u2) 20 w)"
    by (simp add: load_chat_memory_fst)
  have ms: "?ms = [(py ''system'', default_directive)] @ fst (load_chat_memory (tu_chat_id u2) 20 w) @
       [(py ''user'', message_text u2)]"
    by (simp add: m call_gemini_messages_def)
  have req: "gemini_requests (trace (snd (handle_text env u2 ?w1))) = gemini_requests (trace w) @ [?ms]"
  proof (cases "call_gemini env (tu_chat_id u2) (message_text u2) False
      (tasks_lookup env (message_text u2) ?w1)")
    case (Pair r w2)
    have p: "gemini_requests (trace w2) = gemini_requests (trace w) @ [?ms]"
      using Pair call_gemini_requests [of env "tu_chat_id u2" "message_text u2" False
          "tasks_lookup env (message_text u2) ?w1"]
      by (simp add: load_chat_memory_fst)
    show ?thesis
    proof (cases r)
      case (Inl e)
      with Pair p show ?thesis
        using handle_text_failed [OF assms(3) s1, of e w2] by simp
    next
      case (Inr answer)
      show ?thesis
      proof (cases "36 \<in> set answer")
        case True
        obtain a w3 where rl: "render_latex env expr w2 = (a, w3)"
          by (cases "render_latex env expr w2")
        have t3: "trace w3 = trace w2 @ [Get_latex expr]"
          using render_latex_trace(1) [of env expr w2] rl by simp
        from Pair Inr True have "handle_text env u2 ?w1 =
            (case render_latex env expr w2 of
               (Inl e, w3) \<Rightarrow> (Some e, w3)
             | (Inr img, w3) \<Rightarrow>
                 (None, emit (Reply_photo img)
                    (emit (Reply_html (replace [36] [] (replace (py ''**'') (py ''<b>'') answer))) w3)))"
          using handle_text_rich [OF assms(3) s1, of answer w2] by simp
        with rl t3 p show ?thesis
          by (cases a) simp_all
      next
        case False
        with Pair Inr p show ?thesis
          using handle_text_plain [OF assms(3) s1, of answer w2] by simp
      qed
    qed
  qed
  have g: "user_data (snd (handle_text env u3 w)) = user_data w" if "is_greeting env (message_text u3)"
    using that by (simp add: handle_text_greeting)
  from g show ?thesis
    by (simp add: h1 req [unfolded ms])
qed

theorem C5_priming_consumed_by_next_plain_turn_witness:
  "systemMessage (user_data primed_world) = Some True \<and>
   \<not> is_greeting (sample_env (Response 200 (Some (Text (py ''4'')))) 200)
       (message_text \<lparr>tu_chat_id = 7, tu_text = Some (py ''Answer briefly'')\<rparr>) \<and>
   \<not> is_greeting (sample_env (Response 200 (Some (Text (py ''4'')))) 200)
       (message_text \<lparr>tu_chat_id = 7, tu_text = Some (py ''2+2?'')\<rparr>) \<and>
   systemMessage (user_data (snd (handle_text (sample_env (Response 200 (Some (Text (py ''4'')))) 200)
       \<lparr>tu_chat_id = 7, tu_text = Some (py ''Answer briefly'')\<rparr> primed_world))) = Some False \<and>
   gemini_requests (trace (snd (handle_text (sample_env (Response 200 (Some (Text (py ''4'')))) 200)
       \<lparr>tu_chat_id = 7, tu_text = Some (py ''2+2?'')\<rparr>
       (snd (handle_text (sample_env (Response 200 (Some (Text (py ''4'')))) 200)
         \<lparr>tu_chat_id = 7, tu_text = Some (py ''Answer briefly'')\<rparr> primed_world))))) =
     [[(py ''system'', default_directive), (py ''user'', py ''2+2?'')]] \<and>
   is_greeting (sample_env (Response 200 (Some (Text (py ''4'')))) 200)
       (message_text \<lparr>tu_chat_id = 7, tu_text = Some (py ''I think so'')\<rparr>) \<and>
   user_data (snd (handle_text (sample_env (Response 200 (Some (Text (py ''4'')))) 200)
       \<lparr>tu_chat_id = 7, tu_text = Some (py ''I think so'')\<rparr> primed_world)) =
     user_data primed_world"
proof -
  let ?env = "sample_env (Response 200 (Some (Text (py ''4'')))) 200"
  have p: "systemMessage (user_data primed_world) = Some True"
    by (simp add: primed_world_simps)
  have g1: "\<not> is_greeting ?env (message_text \<lparr>tu_chat_id = 7, tu_text = Some (py ''Answer briefly'')\<rparr>)"
    by (simp add: is_greeting_def greeting_words_def sample_env_simps message_text_def py_def
        ascii_lower_def sublist_code)
  have g2: "\<not> is_greeting ?env (message_text \<lparr>tu_chat_id = 7, tu_text = Some (py ''2+2?'')\<rparr>)"
    by (simp add: message_text_def not_greeting_sample)
  have l: "fst (load_chat_memory 7 20 primed_world) = []"
    by (simp add: load_chat_memory_fst select_chat_memory_def primed_world_simps empty_db_def)
  have g3: "is_greeting ?env (message_text \<lparr>tu_chat_id = 7, tu_text = Some (py ''I think so'')\<rparr>)"
    by (simp add: message_text_def greeting_sample)
  from C5_priming_consumed_by_next_plain_turn
    [where ?u3.0 = "\<lparr>tu_chat_id = 7, tu_text = Some (py ''I think so'')\<rparr>", OF p g1 g2]
    p g1 g2 g3 l
  show ?thesis by (simp add: primed_world_simps message_text_def)
qed

text \<open>
  The claim as the spec states it fails for a turn that contains a greeting word: the
  flag stays set, and the turn after it is absorbed instead of being answered.
\<close>

theorem C5_greeting_keeps_priming_counterexample:
  "systemMessage (user_data primed_world) = Some True \<and>
   fst (handle_text (sample_env (Response 200 (Some (Text (py ''4'')))) 200)
       \<lparr>tu_chat_id = 7, tu_text = Some (py ''I think so'')\<rparr> primed_world) = None \<and>
   systemMessage (user_data (snd (handle_text (sample_env (Response 200 (Some (Text (py ''4'')))) 200)
       \<lparr>tu_chat_id = 7, tu_text = Some (py ''I think so'')\<rparr> primed_world))) = Some True \<and>
   gemini_requests (trace (snd (handle_text (sample_env (Response 200 (Some (Text (py ''4'')))) 200)
       \<lparr>tu_chat_id = 7, tu_text = Some (py ''2+2?'')\<rparr>
       (snd (handle_text (sample_env (Response 200 (Some (Text (py ''4'')))) 200)
         \<lparr>tu_chat_id = 7, tu_text = Some (py ''I think so'')\<rparr> primed_world))))) = [] \<and>
   replies (trace (snd (handle_text (sample_env (Response 200 (Some (Text (py ''4'')))) 200)
       \<lparr>tu_chat_id = 7, tu_text = Some (py ''2+2?'')\<rparr>
       (snd (handle_text (sample_env (Response 200 (Some (Text (py ''4'')))) 200)
         \<lparr>tu_chat_id = 7, tu_text = Some (py ''I think so'')\<rparr> primed_world))))) =
     [Reply_text greeting_reply]"
proof -
  let ?env = "sample_env (Response 200 (Some (Text (py ''4'')))) 200"
  let ?w1 = "emit (Reply_text greeting_reply) primed_world"
  have h1: "handle_text ?env \<lparr>tu_chat_id = 7, tu_text = Some (py ''I think so'')\<rparr> primed_world =
      (None, ?w1)"
    by (rule handle_text_greeting) (simp add: message_text_def greeting_sample)
  have h2: "handle_text ?env \<lparr>tu_chat_id = 7, tu_text = Some (py ''2+2?'')\<rparr> ?w1 =
      (None, ?w1\<lparr>user_data := (user_data ?w1)\<lparr>systemMessage := Some False\<rparr>\<rparr>)"
    by (rule handle_text_priming) (simp_all add: message_text_def not_greeting_sample primed_world_simps)
  show ?thesis
    by (simp add: h1 h2 primed_world_simps)
qed

text \<open>
  C6, as the code has it. When the reply contains the marker \<open>$\<close> and the formula
  endpoint fails (it is unreachable, or answers with a status that
  \<open>raise_for_status\<close> rejects), \<open>handle_text\<close> ends with that failure and sends
  nothing: neither the styled text nor an image. The two memory rows of the turn are
  already written.
\<close>

theorem C6_render_failure_aborts_turn:
  assumes "\<not> is_greeting env (message_text u)" "systemMessage (user_data w) \<noteq> Some True"
    and "gemini env (call_gemini_messages (fst (load_chat_memory (tu_chat_id u) 20 w))
           (message_text u) False) = Response st (Some (Text answer))"
    and "\<not> raise_for_status st"
    and "36 \<in> set answer"
    and "codecogs env expr = Unreachable \<or>
         (\<exists>status img. codecogs env expr = Response status img \<and> raise_for_status status)"
  shows "fst (handle_text env u w) =
      (case codecogs env expr of
         Unreachable \<Rightarrow> Some ConnectionError
       | Response status img \<Rightarrow> Some (HTTPError status)) \<and>
    replies (trace (snd (handle_text env u w))) = replies (trace w) \<and>
    latex_requests (trace (snd (handle_text env u w))) = latex_requests (trace w) @ [expr] \<and>
    chat_memory (db (snd (handle_text env u w))) = chat_memory (db w) @
      [\<lparr>cm_chat_id = tu_chat_id u, cm_role = py ''user'', cm_content = message_text u,
         cm_created_at = clock (db w)\<rparr>,
       \<lparr>cm_chat_id = tu_chat_id u, cm_role = py ''assistant'', cm_content = answer,
         cm_created_at = Suc (clock (db w))\<rparr>]"
proof -
  let ?w2 = "save_chat_memory (tu_chat_id u) (py ''assistant'') answer
                (save_chat_memory (tu_chat_id u) (py ''user'') (message_text u)
                  (emit (Post_gemini (call_gemini_messages
                      (fst (load_chat_memory (tu_chat_id u) 20 w)) (message_text u) False))
                    (emit (Select_chat_memory (tu_chat_id u) 20)
                      (tasks_lookup env (message_text u) w))))"
  have h: "handle_text env u w =
      (case render_latex env expr ?w2 of
         (Inl e, w3) \<Rightarrow> (Some e, w3)
       | (Inr img, w3) \<Rightarrow>
           (None, emit (Reply_photo img)
              (emit (Reply_html (replace [36] [] (replace (py ''**'') (py ''<b>'') answer))) w3)))"
    using assms(5) by (simp add: answered_turn [OF assms(1-4)])
  from assms(6) obtain e where f: "fst (render_latex env expr ?w2) = Inl e"
    and e: "(case codecogs env expr of
         Unreachable \<Rightarrow> Some ConnectionError
       | Response status img \<Rightarrow> Some (HTTPError status)) = Some e"
    by (auto simp: render_latex_fails)
  have r: "render_latex env expr ?w2 = (Inl e, snd (render_latex env expr ?w2))"
    using f by (simp add: prod_eq_iff)
  have w': "handle_text env u w = (Some e, snd (render_latex env expr ?w2))"
    unfolding h by (subst r) simp
  show ?thesis
    unfolding w' e by (simp add: insert_chat_memory_def)
qed

theorem C6_render_failure_aborts_turn_witness:
  "\<not> is_greeting (sample_env (Response 200 (Some (Text (py ''$x^2$'')))) 500)
       (message_text \<lparr>tu_chat_id = 7, tu_text = Some (py ''2+2?'')\<rparr>) \<and>
   systemMessage (user_data empty_world) \<noteq> Some True \<and>
   \<not> raise_for_status 200 \<and> 36 \<in> set (py ''$x^2$'') \<and>
   codecogs (sample_env (Response 200 (Some (Text (py ''$x^2$'')))) 500) expr = Response 500 [137, 80, 78, 71] \<and>
   raise_for_status 500 \<and>
   fst (handle_text (sample_env (Response 200 (Some (Text (py ''$x^2$'')))) 500)
       \<lparr>tu_chat_id = 7, tu_text = Some (py ''2+2?'')\<rparr> empty_world) = Some (HTTPError 500) \<and>
   replies (trace (snd (handle_text (sample_env (Response 200 (Some (Text (py ''$x^2$'')))) 500)
       \<lparr>tu_chat_id = 7, tu_text = Some (py ''2+2?'')\<rparr> empty_world))) = [] \<and>
   latex_requests (trace (snd (handle_text (sample_env (Response 200 (Some (Text (py ''$x^2$'')))) 500)
       \<lparr>tu_chat_id = 7, tu_text = Some (py ''2+2?'')\<rparr> empty_world))) = [expr]"
proof -
  let ?env = "sample_env (Response 200 (Some (Text (py ''$x^2$'')))) 500"
  let ?u = "\<lparr>tu_chat_id = 7, tu_text = Some (py ''2+2?'')\<rparr>"
  have t: "message_text ?u = py ''2+2?''" by (simp add: message_text_def)
  have g: "\<not> is_greeting ?env (message_text ?u)"
    unfolding t by (rule not_greeting_sample)
  have s: "systemMessage (user_data empty_world) \<noteq> Some True"
    by (simp add: empty_world_simps)
  have r: "gemini ?env (call_gemini_messages (fst (load_chat_memory (tu_chat_id ?u) 20 empty_world))
      (message_text ?u) False) = Response 200 (Some (Text (py ''$x^2$'')))"
    by (simp add: sample_env_simps)
  have ok: "\<not> raise_for_status 200" by (simp add: raise_for_status_def)
  have bad: "raise_for_status 500" by (simp add: raise_for_status_def)
  have c: "codecogs ?env expr = Response 500 [137, 80, 78, 71]"
    by (simp add: sample_env_simps)
  have f: "codecogs ?env expr = Unreachable \<or>
      (\<exists>status img. codecogs ?env expr = Response status img \<and> raise_for_status status)"
    using c bad by simp
  from C6_render_failure_aborts_turn [OF g s r ok dollar_sample f] g s ok bad c dollar_sample
  show ?thesis by (simp add: empty_world_simps)
qed

text \<open>
  The claim as the spec states it fails: with the formula endpoint answering 500, the
  handler raises and no text is sent.
\<close>

theorem C6_render_failure_counterexample:
  "36 \<in> set (py ''$x^2$'') \<and>
   codecogs (sample_env (Response 200 (Some (Text (py ''$x^2$'')))) 500) expr = Response 500 [137, 80, 78, 71] \<and>
   raise_for_status 500 \<and>
   fst (handle_text (sample_env (Response 200 (Some (Text (py ''$x^2$'')))) 500)
       \<lparr>tu_chat_id = 7, tu_text = Some (py ''2+2?'')\<rparr> empty_world) = Some (HTTPError 500) \<and>
   replies (trace (snd (handle_text (sample_env (Response 200 (Some (Text (py ''$x^2$'')))) 500)
       \<lparr>tu_chat_id = 7, tu_text = Some (py ''2+2?'')\<rparr> empty_world))) = []"
  by (simp add: sample_rich_turn render_latex_def Let_def sample_env_simps raise_for_status_def
      dollar_sample empty_world_simps)

text \<open>
  C7. The markup sent to the formula endpoint should be the delimited part of the reply.
  For the reply \<open>$x^2$\<close> the handler sends the fixed expression of line 138, which is
  no part of the reply, and shows its image beside the text \<open>x^2\<close>.
\<close>

theorem C7_formula_is_hardcoded:
  "36 \<in> set (py ''$x^2$'') \<and>
   fst (handle_text (sample_env (Response 200 (Some (Text (py ''$x^2$'')))) 200)
       \<lparr>tu_chat_id = 7, tu_text = Some (py ''2+2?'')\<rparr> empty_world) = None \<and>
   latex_requests (trace (snd (handle_text (sample_env (Response 200 (Some (Text (py ''$x^2$'')))) 200)
       \<lparr>tu_chat_id = 7, tu_text = Some (py ''2+2?'')\<rparr> empty_world))) = [expr] \<and>
   \<not> sublist expr (py ''$x^2$'') \<and>
   replies (trace (snd (handle_text (sample_env (Response 200 (Some (Text (py ''$x^2$'')))) 200)
       \<lparr>tu_chat_id = 7, tu_text = Some (py ''2+2?'')\<rparr> empty_world))) =
     [Reply_html (py ''x^2''), Reply_photo [137, 80, 78, 71]]"
proof -
  have n: "\<not> sublist expr (py ''$x^2$'')"
    by (simp add: expr_def py_def sublist_code)
  show ?thesis
    by (simp add: sample_rich_turn render_latex_def Let_def sample_env_simps raise_for_status_def
      dollar_sample empty_world_simps replace_sample n)
qed

text \<open>
  C8. A reply without the marker \<open>$\<close> is sent as it is, as one plain text message,
  and the formula endpoint is not called.
\<close>

theorem C8_plain_reply:
  assumes "\<not> is_greeting env (message_text u)" "systemMessage (user_data w) \<noteq> Some True"
    and "gemini env (call_gemini_messages (fst (load_chat_memory (tu_chat_id u) 20 w))
           (message_text u) False) = Response st (Some (Text answer))"
    and "\<not> raise_for_status st"
    and "36 \<notin> set answer"
  shows "fst (handle_text env u w) = None \<and>
    replies (trace (snd (handle_text env u w))) = replies (trace w) @ [Reply_text answer] \<and>
    latex_requests (trace (snd (handle_text env u w))) = latex_requests (trace w)"
  using assms(5) by (simp add: answered_turn [OF assms(1-4)])

theorem C8_plain_reply_witness:
  "\<not> is_greeting (sample_env (Response 200 (Some (Text (py ''4'')))) 200)
       (message_text \<lparr>tu_chat_id = 7, tu_text = Some (py ''2+2?'')\<rparr>) \<and>
   systemMessage (user_data empty_world) \<noteq> Some True \<and>
   \<not> raise_for_status 200 \<and> 36 \<notin> set (py ''4'') \<and>
   fst (handle_text (sample_env (Response 200 (Some (Text (py ''4'')))) 200)
       \<lparr>tu_chat_id = 7, tu_text = Some (py ''2+2?'')\<rparr> empty_world) = None \<and>
   replies (trace (snd (handle_text (sample_env (Response 200 (Some (Text (py ''4'')))) 200)
       \<lparr>tu_chat_id = 7, tu_text = Some (py ''2+2?'')\<rparr> empty_world))) = [Reply_text (py ''4'')] \<and>
   latex_requests (trace (snd (handle_text (sample_env (Response 200 (Some (Text (py ''4'')))) 200)
       \<lparr>tu_chat_id = 7, tu_text = Some (py ''2+2?'')\<rparr> empty_world))) = []"
proof -
  let ?env = "sample_env (Response 200 (Some (Text (py ''4'')))) 200"
  let ?u = "\<lparr>tu_chat_id = 7, tu_text = Some (py ''2+2?'')\<rparr>"
  have g: "\<not> is_greeting ?env (message_text ?u)"
    by (simp add: is_greeting_def greeting_words_def sample_env_def message_text_def py_def
        ascii_lower_def sublist_code)
  have s: "systemMessage (user_data empty_world) \<noteq> Some True"
    by (simp add: empty_world_def)
  have r: "gemini ?env (call_gemini_messages (fst (load_chat_memory (tu_chat_id ?u) 20 empty_world))
      (message_text ?u) False) = Response 200 (Some (Text (py ''4'')))"
    by (simp add: sample_env_def)
  have ok: "\<not> raise_for_status 200"
    by (simp add: raise_for_status_def)
  have d: "36 \<notin> set (py ''4'')"
    by (simp add: py_def)
  have e: "trace empty_world = []"
    by (simp add: empty_world_def)
  from C8_plain_reply [OF g s r ok d] g s ok d e show ?thesis by simp
qed

text \<open>
  C9, as the code has it. When the reader cannot open the document, or the extraction of
  a page raises, \<open>handle_document\<close> ends with that failure and stores nothing. When
  every page is extracted, a page without text counts as the empty string, and one row is
  stored for the document's identifier: the texts of the pages joined by newlines. For a
  document without pages, or with one page without text, that content is the empty
  string, which is stored like any other.
\<close>

theorem C9_ingestion_of_extracted_pages:
  assumes "du_user_id u = ADMIN_ID env"
  shows "(du_file u = Unreadable \<or> (\<exists>ps. du_file u = Pages ps \<and> Extract_raises \<in> set ps) \<longrightarrow>
       handle_document env u w = (Some PdfReadError, w)) \<and>
    (\<forall>ps. du_file u = Pages ps \<and> Extract_raises \<notin> set ps \<longrightarrow>
       fst (handle_document env u w) = None \<and>
       pdf_knowledge (db (snd (handle_document env u w))) = pdf_knowledge (db w) @
         [\<lparr>pk_file_id = du_file_id u, pk_content = join [10] (map page_text ps)\<rparr>]) \<and>
    (du_file u = Pages [] \<or> du_file u = Pages [Extracted None] \<or>
     du_file u = Pages [Extracted (Some [])] \<longrightarrow>
       fst (handle_document env u w) = None \<and>
       pdf_knowledge (db (snd (handle_document env u w))) = pdf_knowledge (db w) @
         [\<lparr>pk_file_id = du_file_id u, pk_content = []\<rparr>])"
proof -
  have stored: "fst (handle_document env u w) = None \<and>
       pdf_knowledge (db (snd (handle_document env u w))) = pdf_knowledge (db w) @
         [\<lparr>pk_file_id = du_file_id u, pk_content = join [10] (map page_text ps)\<rparr>]"
    if "du_file u = Pages ps" "Extract_raises \<notin> set ps" for ps
    using handle_document_stored [OF assms that]
    by (simp add: insert_pdf_knowledge_def)
  have empty: "fst (handle_document env u w) = None \<and>
       pdf_knowledge (db (snd (handle_document env u w))) = pdf_knowledge (db w) @
         [\<lparr>pk_file_id = du_file_id u, pk_content = []\<rparr>]"
    if "du_file u = Pages [] \<or> du_file u = Pages [Extracted None] \<or>
     du_file u = Pages [Extracted (Some [])]"
    using that stored [of "[]"] stored [of "[Extracted None]"] stored [of "[Extracted (Some [])]"]
    by auto
  from handle_document_aborted [OF assms] stored empty show ?thesis by blast
qed

theorem C9_ingestion_of_extracted_pages_witness:
  "du_user_id \<lparr>du_user_id = 1, du_chat_id = 7, du_file_id = py ''D'',
       du_file = Pages [Extracted None]\<rparr> = ADMIN_ID (sample_env Unreachable 200) \<and>
   fst (handle_document (sample_env Unreachable 200)
       \<lparr>du_user_id = 1, du_chat_id = 7, du_file_id = py ''D'', du_file = Pages [Extracted None]\<rparr>
       empty_world) = None \<and>
   pdf_knowledge (db (snd (handle_document (sample_env Unreachable 200)
       \<lparr>du_user_id = 1, du_chat_id = 7, du_file_id = py ''D'', du_file = Pages [Extracted None]\<rparr>
       empty_world))) = [\<lparr>pk_file_id = py ''D'', pk_content = []\<rparr>] \<and>
   handle_document (sample_env Unreachable 200)
       \<lparr>du_user_id = 1, du_chat_id = 7, du_file_id = py ''D'', du_file = Unreadable\<rparr>
       empty_world = (Some PdfReadError, empty_world)"
proof -
  have a: "du_user_id \<lparr>du_user_id = 1, du_chat_id = 7, du_file_id = py ''D'',
       du_file = Pages [Extracted None]\<rparr> = ADMIN_ID (sample_env Unreachable 200)"
    by (simp add: sample_env_simps)
  have b: "du_user_id \<lparr>du_user_id = 1, du_chat_id = 7, du_file_id = py ''D'',
       du_file = Unreadable\<rparr> = ADMIN_ID (sample_env Unreachable 200)"
    by (simp add: sample_env_simps)
  have e: "pdf_knowledge (db empty_world) = []"
    by (simp add: empty_world_simps empty_db_def)
  from C9_ingestion_of_extracted_pages [OF a, of empty_world]
    C9_ingestion_of_extracted_pages [OF b, of empty_world] a e
  show ?thesis by simp
qed

text \<open>
  The claim as the spec states it fails: an unreadable document aborts the ingestion and
  no row is stored.
\<close>

theorem C9_unreadable_document_counterexample:
  "du_user_id \<lparr>du_user_id = 1, du_chat_id = 7, du_file_id = py ''D'', du_file = Unreadable\<rparr> =
     ADMIN_ID (sample_env Unreachable 200) \<and>
   fst (handle_document (sample_env Unreachable 200)
       \<lparr>du_user_id = 1, du_chat_id = 7, du_file_id = py ''D'', du_file = Unreadable\<rparr>
       empty_world) = Some PdfReadError \<and>
   pdf_knowledge (db (snd (handle_document (sample_env Unreachable 200)
       \<lparr>du_user_id = 1, du_chat_id = 7, du_file_id = py ''D'', du_file = Unreadable\<rparr>
       empty_world))) = []"
  by (simp add: handle_document_def sample_env_simps empty_world_simps empty_db_def)

text \<open>
  C10. A text whose lower-cased form contains \<open>hi\<close>, \<open>hello\<close> or one of the two
  Russian greetings is answered with the fixed greeting and nothing else happens: the
  trace gains that one reply, so there is no lookup, no request and no write, and the
  database and \<open>user_data\<close> (the priming flag and the active document) are as
  before.
\<close>

theorem C10_greeting_short_circuit:
  assumes "sublist (py ''hi'') (str_lower env (message_text u)) \<or>
      sublist (py ''hello'') (str_lower env (message_text u)) \<or>
      sublist [1087, 1088, 1080, 1074, 1077, 1090] (str_lower env (message_text u)) \<or>
      sublist [1079, 1076, 1088, 1072, 1074, 1089, 1090, 1074, 1091, 1081]
        (str_lower env (message_text u))"
  shows "fst (handle_text env u w) = None \<and>
     db (snd (handle_text env u w)) = db w \<and>
     user_data (snd (handle_text env u w)) = user_data w \<and>
     trace (snd (handle_text env u w)) = trace w @ [Reply_text greeting_reply]"
proof -
  from assms have "is_greeting env (message_text u)"
    by (simp only: is_greeting_iff)
  then have "handle_text env u w = (None, emit (Reply_text greeting_reply) w)"
    by (rule handle_text_greeting)
  then show ?thesis by simp
qed

theorem C10_greeting_short_circuit_witness:
  "sublist (py ''hi'') (str_lower (sample_env Unreachable 200)
       (message_text \<lparr>tu_chat_id = 7, tu_text = Some (py ''I think so'')\<rparr>)) \<and>
   fst (handle_text (sample_env Unreachable 200)
       \<lparr>tu_chat_id = 7, tu_text = Some (py ''I think so'')\<rparr> primed_world) = None \<and>
   db (snd (handle_text (sample_env Unreachable 200)
       \<lparr>tu_chat_id = 7, tu_text = Some (py ''I think so'')\<rparr> primed_world)) = db primed_world \<and>
   user_data (snd (handle_text (sample_env Unreachable 200)
       \<lparr>tu_chat_id = 7, tu_text = Some (py ''I think so'')\<rparr> primed_world)) =
     \<lparr>last_pdf_id = Some (py ''D''), systemMessage = Some True\<rparr> \<and>
   trace (snd (handle_text (sample_env Unreachable 200)
       \<lparr>tu_chat_id = 7, tu_text = Some (py ''I think so'')\<rparr> primed_world)) =
     [Reply_text greeting_reply]"
proof -
  have h: "sublist (py ''hi'') (str_lower (sample_env Unreachable 200)
       (message_text \<lparr>tu_chat_id = 7, tu_text = Some (py ''I think so'')\<rparr>))"
    by (simp add: sample_env_def message_text_def py_def ascii_lower_def sublist_code)
  have p: "user_data primed_world = \<lparr>last_pdf_id = Some (py ''D''), systemMessage = Some True\<rparr>"
    "trace primed_world = []"
    by (simp_all add: primed_world_def empty_world_def)
  from h have "sublist (py ''hi'') (str_lower (sample_env Unreachable 200)
       (message_text \<lparr>tu_chat_id = 7, tu_text = Some (py ''I think so'')\<rparr>)) \<or>
      sublist (py ''hello'') (str_lower (sample_env Unreachable 200)
       (message_text \<lparr>tu_chat_id = 7, tu_text = Some (py ''I think so'')\<rparr>)) \<or>
      sublist [1087, 1088, 1080, 1074, 1077, 1090] (str_lower (sample_env Unreachable 200)
       (message_text \<lparr>tu_chat_id = 7, tu_text = Some (py ''I think so'')\<rparr>)) \<or>
      sublist [1079, 1076, 1088, 1072, 1074, 1089, 1090, 1074, 1091, 1081]
        (str_lower (sample_env Unreachable 200)
       (message_text \<lparr>tu_chat_id = 7, tu_text = Some (py ''I think so'')\<rparr>))"
    by (rule disjI1)
  from C10_greeting_short_circuit [OF this, of primed_world] h p
  show ?thesis by simp
qed

end
